theory Spec2Isabelle
  imports Main "HOL-Library.AList" "HOL-Library.List_Lexorder" "HOL-Library.Char_ord"
begin

section \<open>JavaScript values read from JSON\<close>

text \<open>
  The optimizer reads bundle lists and plugin manifests with \<^verbatim>\<open>JSON.parse\<close>. A parsed
  value is a \<open>json\<close>; a property that is missing (JavaScript's \<^verbatim>\<open>undefined\<close>) is
  \<open>None\<close> of \<open>json option\<close>. The checks of the sources only ask a number whether it is
  zero, so the payload of \<open>JNum\<close> is an integer.
\<close>

datatype json =
    JNull
  | JBool bool
  | JNum int
  | JStr string
  | JArr "json list"
  | JObj "(string \<times> json) list"

text \<open>Errors thrown by the sources, as values. \<open>Error\<close> carries the message of
  \<^verbatim>\<open>new Error(message)\<close>, \<open>TypeError\<close> is the runtime's own, and \<open>FsError\<close> is a failure
  of \<^verbatim>\<open>Fs.readFileSync\<close> with its \<^verbatim>\<open>code\<close>.\<close>

datatype error =
    Error string
  | TypeError string
  | SyntaxError string
  | FsError string

fun message :: "error \<Rightarrow> string" where
  "message (Error m) = m"
| "message (TypeError m) = m"
| "message (SyntaxError m) = m"
| "message (FsError c) = c"

text \<open>
  A string that is handed to \<^verbatim>\<open>JSON.parse\<close> is kept as what \<^verbatim>\<open>JSON.parse\<close> makes of it:
  the value it denotes, or the message of the \<^verbatim>\<open>SyntaxError\<close>. \<^verbatim>\<open>JSON.stringify\<close> of a
  value gives the text that denotes it.
\<close>

datatype json_string = NotJSON string | JSONText json

fun JSON_parse :: "json_string \<Rightarrow> error + json" where
  "JSON_parse (NotJSON m) = Inl (SyntaxError m)"
| "JSON_parse (JSONText v) = Inr v"

text \<open>\<^verbatim>\<open>v.k\<close> for a parsed value: the property of an object, \<^verbatim>\<open>undefined\<close> otherwise
  (none of the names the sources read is a property of an array).\<close>

fun get_property :: "json \<Rightarrow> string \<Rightarrow> json option" where
  "get_property (JObj kvs) k = map_of kvs k"
| "get_property _ k = None"

text \<open>\<^verbatim>\<open>v && typeof v === 'object'\<close>: objects and arrays, not \<^verbatim>\<open>null\<close>.\<close>

fun is_object :: "json \<Rightarrow> bool" where
  "is_object (JObj _) = True"
| "is_object (JArr _) = True"
| "is_object _ = False"

text \<open>JavaScript's truthiness, as \<^verbatim>\<open>||\<close> reads it.\<close>

fun truthy :: "json \<Rightarrow> bool" where
  "truthy JNull = False"
| "truthy (JBool b) = b"
| "truthy (JNum n) = (n \<noteq> 0)"
| "truthy (JStr s) = (s \<noteq> [])"
| "truthy (JArr _) = True"
| "truthy (JObj _) = True"

fun is_string :: "json \<Rightarrow> bool" where
  "is_string (JStr _) = True"
| "is_string _ = False"

fun the_string :: "json \<Rightarrow> string" where
  "the_string (JStr s) = s"
| "the_string _ = []"

text \<open>Sequencing of computations that may throw.\<close>

fun and_then :: "'e + 'a \<Rightarrow> ('a \<Rightarrow> 'e + 'b) \<Rightarrow> 'e + 'b" where
  "and_then (Inl e) f = Inl e"
| "and_then (Inr x) f = f x"

text \<open>\<^verbatim>\<open>xs.map(f)\<close> where \<^verbatim>\<open>f\<close> may throw: the first throw ends the loop.\<close>

fun map_throwing :: "('a \<Rightarrow> 'e + 'b) \<Rightarrow> 'a list \<Rightarrow> 'e + 'b list" where
  "map_throwing f [] = Inr []"
| "map_throwing f (x # xs) =
     and_then (f x) (\<lambda>y. and_then (map_throwing f xs) (\<lambda>ys. Inr (y # ys)))"

section \<open>Bundle (src/unnamed/part\_000)\<close>

datatype BundleType = plugin | entry

record BundleSpec =
  type :: BundleType
  id' :: string
  publicDirNames :: "string list"
  contextDir :: string
  sourceRoot :: string
  outputDir :: string
  banner :: "string option"
  manifestPath :: "string option"

text \<open>
  The class \<^verbatim>\<open>Bundle\<close> has the eight fields of its spec and the member \<^verbatim>\<open>cache\<close>, a
  \<^verbatim>\<open>BundleCache\<close> opened on \<^verbatim>\<open>Path.resolve(outputDir, '.osd-optimizer-cache')\<close>. The handle
  is kept as the two arguments of \<^verbatim>\<open>Path.resolve\<close>; the record that the store holds is
  passed explicitly to the operations that read or write it.
\<close>

datatype BundleCache = BundleCache string string

record Bundle = BundleSpec +
  cache :: BundleCache

definition new_Bundle :: "BundleSpec \<Rightarrow> Bundle" where
  "new_Bundle s =
     \<lparr>type = type s, id' = id' s, publicDirNames = publicDirNames s,
      contextDir = contextDir s, sourceRoot = sourceRoot s, outputDir = outputDir s,
      banner = banner s, manifestPath = manifestPath s,
      cache = BundleCache (outputDir s) ''.osd-optimizer-cache''\<rparr>"

definition toSpec :: "Bundle \<Rightarrow> BundleSpec" where
  "toSpec b =
     \<lparr>type = type b, id' = id' b, publicDirNames = publicDirNames b,
      contextDir = contextDir b, sourceRoot = sourceRoot b, outputDir = outputDir b,
      banner = banner b, manifestPath = manifestPath b\<rparr>"

subsection \<open>createCacheKey\<close>

text \<open>
  \<^verbatim>\<open>hashes\<close> is a \<^verbatim>\<open>Map<string, string | undefined>\<close>: its entries in insertion order, one
  per key. \<^verbatim>\<open>hashes.get(p)\<close> is \<^verbatim>\<open>undefined\<close> both for a missing key and for a key
  mapped to \<^verbatim>\<open>undefined\<close>.
\<close>

type_synonym Hashes = "(string \<times> string option) list"

definition Map_get :: "Hashes \<Rightarrow> string \<Rightarrow> string option" where
  "Map_get m k = (case map_of m k of None \<Rightarrow> None | Some v \<Rightarrow> v)"

text \<open>
  Modelled from the spec: \<^verbatim>\<open>./array_helpers\<close> (\<^verbatim>\<open>ascending\<close>, \<^verbatim>\<open>entriesToObject\<close>) is
  missing from the sources. The spec has the hash table "sorted by path":
  \<^verbatim>\<open>sort(ascending((e) => e[0]))\<close> is the stable sort of the entries on their path, paths
  compared as strings (here: by the lexicographic order on characters), and
  \<^verbatim>\<open>entriesToObject\<close> assigns the entries to a fresh object one after the other. An object
  is the list of its properties in creation order; assigning to a property that exists
  replaces its value in place.
\<close>

definition entriesToObject :: "(string \<times> 'v) list \<Rightarrow> (string \<times> 'v) list" where
  "entriesToObject es = foldl (\<lambda>obj (k, v). AList.update k v obj) [] es"

record CacheKey =
  spec :: BundleSpec
  hashes :: "(string \<times> string option) list"

definition createCacheKey :: "Bundle \<Rightarrow> string list \<Rightarrow> Hashes \<Rightarrow> CacheKey" where
  "createCacheKey b files hs =
     \<lparr>spec = toSpec b,
      hashes = entriesToObject (sort_key fst (map (\<lambda>p. (p, Map_get hs p)) files))\<rparr>"

subsection \<open>readBundleDeps\<close>

definition DEFAULT_IMPLICIT_BUNDLE_DEPS :: "string list" where
  "DEFAULT_IMPLICIT_BUNDLE_DEPS = [''core'']"

fun isStringArray :: "json \<Rightarrow> bool" where
  "isStringArray (JArr xs) = list_all is_string xs"
| "isStringArray _ = False"

fun array_elements :: "json \<Rightarrow> json list" where
  "array_elements (JArr xs) = xs"
| "array_elements _ = []"

text \<open>\<^verbatim>\<open>v || []\<close> for a property \<open>v\<close> that may be missing.\<close>

fun or_empty_array :: "json option \<Rightarrow> json" where
  "or_empty_array None = JArr []"
| "or_empty_array (Some v) = (if truthy v then v else JArr [])"

text \<open>
  The spread \<^verbatim>\<open>...v\<close> inside an array literal: the elements of an array, the characters
  of a string, and a \<^verbatim>\<open>TypeError\<close> for a value that is not iterable.
\<close>

fun spread :: "json \<Rightarrow> error + json list" where
  "spread (JArr xs) = Inr xs"
| "spread (JStr s) = Inr (map (\<lambda>c. JStr [c]) s)"
| "spread _ = Inl (TypeError ''parsedManifest.requiredPlugins is not iterable'')"

text \<open>The outcome of \<^verbatim>\<open>Fs.readFileSync(path, 'utf8')\<close>: the content, or an error with
  its \<^verbatim>\<open>code\<close>. The file system is a function from paths to outcomes.\<close>

datatype read_result = Content json_string | ReadError string

record BundleDeps =
  implicit :: "string list"
  explicit :: "string list"

definition expected_arrays_error :: "string \<Rightarrow> error" where
  "expected_arrays_error p =
     Error (''Expected \"requiredBundles\" and \"requiredPlugins\" in manifest file ['' @ p
            @ ''] to be arrays of strings'')"

definition unable_to_parse_manifest :: "string \<Rightarrow> error \<Rightarrow> error" where
  "unable_to_parse_manifest p e =
     Error (''unable to parse manifest at ['' @ p @ ''], error: ['' @ message e @ '']'')"

definition manifest_deps :: "string \<Rightarrow> json \<Rightarrow> error + BundleDeps" where
  "manifest_deps p parsedManifest =
     (if is_object parsedManifest then
        (let explicit = or_empty_array (get_property parsedManifest ''requiredBundles'') in
         and_then (spread (or_empty_array (get_property parsedManifest ''requiredPlugins'')))
           (\<lambda>plugins.
              let implicit = JArr (map JStr DEFAULT_IMPLICIT_BUNDLE_DEPS @ plugins) in
              if isStringArray explicit \<and> isStringArray implicit
              then Inr \<lparr>implicit = map the_string (array_elements implicit),
                        explicit = map the_string (array_elements explicit)\<rparr>
              else Inl (expected_arrays_error p)))
      else Inl (expected_arrays_error p))"

definition read_manifest :: "(string \<Rightarrow> read_result) \<Rightarrow> string \<Rightarrow> error + json_string" where
  "read_manifest fs p =
     (case fs p of
        Content json \<Rightarrow> Inr json
      | ReadError code \<Rightarrow>
          if code \<noteq> ''ENOENT'' then Inl (FsError code) else Inr (JSONText (JObj [])))"

definition readBundleDeps :: "(string \<Rightarrow> read_result) \<Rightarrow> Bundle \<Rightarrow> error + BundleDeps" where
  "readBundleDeps fs b =
     (case manifestPath b of
        None \<Rightarrow> Inr \<lparr>implicit = DEFAULT_IMPLICIT_BUNDLE_DEPS, explicit = []\<rparr>
      | Some p \<Rightarrow>
          if p = [] then Inr \<lparr>implicit = DEFAULT_IMPLICIT_BUNDLE_DEPS, explicit = []\<rparr>
          else
            and_then (read_manifest fs p)
              (\<lambda>json.
                 case JSON_parse json of
                   Inl e \<Rightarrow> Inl (unable_to_parse_manifest p e)
                 | Inr parsedManifest \<Rightarrow> manifest_deps p parsedManifest))"

subsection \<open>parseBundles\<close>

text \<open>\<^verbatim>\<open>Path.isAbsolute\<close> of the POSIX \<^verbatim>\<open>path\<close> module: the path starts with a slash.\<close>

fun isAbsolute :: "string \<Rightarrow> bool" where
  "isAbsolute [] = False"
| "isAbsolute (c # cs) = (c = CHR ''/'')"

text \<open>The argument of \<^verbatim>\<open>parseBundles\<close>: any value, a string or not.\<close>

datatype js_arg = NotAString | Str json_string

text \<open>\<^verbatim>\<open>includes(VALID_BUNDLE_TYPES, type)\<close>, with the type it narrows to.\<close>

fun valid_bundle_type :: "json option \<Rightarrow> BundleType option" where
  "valid_bundle_type (Some (JStr s)) =
     (if s = ''plugin'' then Some plugin else if s = ''entry'' then Some entry else None)"
| "valid_bundle_type _ = None"

fun absolute_path_property :: "string \<Rightarrow> json option \<Rightarrow> error + string" where
  "absolute_path_property name (Some (JStr s)) =
     (if isAbsolute s then Inr s
      else Inl (Error (''`bundles[]` must have an absolute path `'' @ name @ ''` property'')))"
| "absolute_path_property name _ =
     Inl (Error (''`bundles[]` must have an absolute path `'' @ name @ ''` property''))"

fun optional_manifestPath :: "json option \<Rightarrow> error + string option" where
  "optional_manifestPath None = Inr None"
| "optional_manifestPath (Some v) =
     and_then (absolute_path_property ''manifestPath'' (Some v)) (\<lambda>p. Inr (Some p))"

fun optional_banner :: "json option \<Rightarrow> error + string option" where
  "optional_banner None = Inr None"
| "optional_banner (Some (JStr s)) = Inr (Some s)"
| "optional_banner (Some _) = Inl (Error ''`bundles[]` must have a string `banner` property'')"

fun string_id :: "json option \<Rightarrow> error + string" where
  "string_id (Some (JStr s)) = Inr s"
| "string_id _ = Inl (Error ''`bundles[]` must have a string `id` property'')"

fun string_array_publicDirNames :: "json option \<Rightarrow> error + string list" where
  "string_array_publicDirNames (Some (JArr xs)) =
     (if list_all is_string xs then Inr (map the_string xs)
      else Inl (Error ''`bundles[]` must have an array of strings `publicDirNames` property''))"
| "string_array_publicDirNames _ =
     Inl (Error ''`bundles[]` must have an array of strings `publicDirNames` property'')"

definition parse_spec :: "json \<Rightarrow> error + Bundle" where
  "parse_spec s =
     (if \<not> is_object s then Inl (Error ''`bundles[]` must be an object'')
      else case valid_bundle_type (get_property s ''type'') of
        None \<Rightarrow> Inl (Error ''`bundles[]` must have a valid `type`'')
      | Some t \<Rightarrow>
          and_then (string_id (get_property s ''id'')) (\<lambda>i.
          and_then (string_array_publicDirNames (get_property s ''publicDirNames'')) (\<lambda>dirs.
          and_then (absolute_path_property ''contextDir'' (get_property s ''contextDir'')) (\<lambda>cd.
          and_then (absolute_path_property ''sourceRoot'' (get_property s ''sourceRoot'')) (\<lambda>sr.
          and_then (absolute_path_property ''outputDir'' (get_property s ''outputDir'')) (\<lambda>od.
          and_then (optional_manifestPath (get_property s ''manifestPath'')) (\<lambda>mp.
          and_then (optional_banner (get_property s ''banner'')) (\<lambda>bn.
            Inr (new_Bundle
              \<lparr>type = t, id' = i, publicDirNames = dirs, contextDir = cd,
               sourceRoot = sr, outputDir = od, banner = bn, manifestPath = mp\<rparr>)))))))))"

definition parseBundles :: "js_arg \<Rightarrow> error + Bundle list" where
  "parseBundles json =
     (case (case json of
              NotAString \<Rightarrow> Inl (Error ''must be a JSON string'')
            | Str text \<Rightarrow>
                and_then (JSON_parse text) (\<lambda>specs.
                  case specs of
                    JArr elems \<Rightarrow> map_throwing parse_spec elems
                  | _ \<Rightarrow> Inl (Error ''must be an array''))) of
        Inl e \<Rightarrow> Inl (Error (''unable to parse bundles: '' @ message e))
      | Inr bundles \<Rightarrow> Inr bundles)"

text \<open>
  \<^verbatim>\<open>JSON.stringify([spec, ...])\<close> for specs as \<open>toSpec\<close> builds them: the properties in the
  order of the object literal, a property whose value is \<^verbatim>\<open>undefined\<close> left out.
\<close>

definition spec_to_json :: "BundleSpec \<Rightarrow> json" where
  "spec_to_json s =
     JObj ([(''type'', JStr (case type s of plugin \<Rightarrow> ''plugin'' | entry \<Rightarrow> ''entry'')),
            (''id'', JStr (id' s)),
            (''publicDirNames'', JArr (map JStr (publicDirNames s))),
            (''contextDir'', JStr (contextDir s)),
            (''sourceRoot'', JStr (sourceRoot s)),
            (''outputDir'', JStr (outputDir s))]
           @ (case manifestPath s of None \<Rightarrow> [] | Some p \<Rightarrow> [(''manifestPath'', JStr p)])
           @ (case banner s of None \<Rightarrow> [] | Some t \<Rightarrow> [(''banner'', JStr t)]))"

definition JSON_stringify_specs :: "BundleSpec list \<Rightarrow> json_string" where
  "JSON_stringify_specs specs = JSONText (JArr (map spec_to_json specs))"

text \<open>The invariant of the data model that no type enforces: the three directories are
  absolute paths, and so is the manifest path when there is one.\<close>

definition valid_spec :: "BundleSpec \<Rightarrow> bool" where
  "valid_spec s \<longleftrightarrow>
     isAbsolute (contextDir s) \<and> isAbsolute (sourceRoot s) \<and> isAbsolute (outputDir s)
     \<and> (case manifestPath s of None \<Rightarrow> True | Some p \<Rightarrow> isAbsolute p)"

text \<open>The bundle of the fixture plugin \<^verbatim>\<open>foo\<close> of the integration tests.\<close>

definition foo_spec :: BundleSpec where
  "foo_spec =
     \<lparr>type = plugin, id' = ''foo'', publicDirNames = [''public''],
      contextDir = ''/repo/plugins/foo'', sourceRoot = ''/repo'',
      outputDir = ''/repo/plugins/foo/target/public'', banner = None,
      manifestPath = Some ''/repo/plugins/foo/opensearch_dashboards.json''\<rparr>"

definition foo_bundle :: Bundle where
  "foo_bundle = new_Bundle foo_spec"

section \<open>The bundle cache and the cache decision\<close>

text \<open>
  The record that \<^verbatim>\<open>bundle.cache\<close> persists, as \<^verbatim>\<open>run_compilers.ts\<close> writes it and as the
  integration test sets it. Every field may be missing: reading a missing or corrupt
  file gives the empty record. The optimizer cache key is of type \<^verbatim>\<open>unknown\<close>.
\<close>

record CacheRecord =
  bundleRefExportIds :: "string list option"
  optimizerCacheKey :: "json option"
  cacheKey :: "CacheKey option"
  moduleCount :: "nat option"
  workUnits :: "nat option"
  files :: "string list option"

datatype Diff =
    OptimizerCacheKeyDiff "json option" "json option"
  | BundleRefsDiff "string list" "string list"
  | CacheKeyDiff CacheKey CacheKey

datatype NotCachedReason =
    CacheDisabled
  | MissingOptimizerCacheKey
  | OptimizerCacheKeyMismatch
  | BundleReferencesOutdated
  | MissingCacheKey
  | CacheKeyMismatch

datatype BundleCacheEvent =
    BundleCached
  | BundleNotCached NotCachedReason "Diff option"

text \<open>What one decision reads: the \<^verbatim>\<open>cache\<close> flag of the configuration, the current
  optimizer cache key, the stored record, the export ids the bundle's references resolve
  to now, and the bundle with its current files and hashes.\<close>

record DecisionInput =
  cache_enabled :: bool
  current_optimizerCacheKey :: "json option"
  stored :: CacheRecord
  resolved_exportIds :: "string list"
  the_bundle :: Bundle
  current_files :: "string list"
  current_hashes :: Hashes

definition stored_exportIds :: "DecisionInput \<Rightarrow> string list" where
  "stored_exportIds i = (case bundleRefExportIds (stored i) of None \<Rightarrow> [] | Some ids \<Rightarrow> ids)"

definition current_cacheKey :: "DecisionInput \<Rightarrow> CacheKey" where
  "current_cacheKey i = createCacheKey (the_bundle i) (current_files i) (current_hashes i)"

text \<open>
  The tail of the decision, steps 3 to 7 of section 4.3 of the spec: the optimizer cache
  keys are compared, then the export ids as sets, then the cache keys. "Old versus new"
  of a reason with a diff is the pair of the stored and the current value.
\<close>

definition decide_from_step_3 :: "DecisionInput \<Rightarrow> BundleCacheEvent" where
  "decide_from_step_3 i =
     (if optimizerCacheKey (stored i) \<noteq> current_optimizerCacheKey i then
        BundleNotCached OptimizerCacheKeyMismatch
          (Some (OptimizerCacheKeyDiff (optimizerCacheKey (stored i))
                   (current_optimizerCacheKey i)))
      else if set (stored_exportIds i) \<noteq> set (resolved_exportIds i) then
        BundleNotCached BundleReferencesOutdated
          (Some (BundleRefsDiff (stored_exportIds i) (resolved_exportIds i)))
      else case cacheKey (stored i) of
        None \<Rightarrow> BundleNotCached MissingCacheKey None
      | Some old \<Rightarrow>
          if old \<noteq> current_cacheKey i then
            BundleNotCached CacheKeyMismatch (Some (CacheKeyDiff old (current_cacheKey i)))
          else BundleCached)"

text \<open>
  Modelled from the spec: \<^verbatim>\<open>getBundleCacheEvent$\<close> (\<^verbatim>\<open>../optimizer/bundle_cache\<close>) is missing
  from the sources; only its integration test is there. The decision for one bundle
  follows the seven steps of section 4.3 in their order, with one reading taken from the
  test: "emits bundle not cached event when optimizerCacheKey is missing"
  (\<^verbatim>\<open>bundle_cache.test.ts\<close>, lines 143 to 180) stores a record with no optimizer cache key,
  passes the current key \<^verbatim>\<open>'optimizerCacheKey'\<close> and expects the reason "missing optimizer
  cache key". So step 2 answers when either key is missing.
\<close>

definition getBundleCacheEvent :: "DecisionInput \<Rightarrow> BundleCacheEvent" where
  "getBundleCacheEvent i =
     (if \<not> cache_enabled i then BundleNotCached CacheDisabled None
      else if current_optimizerCacheKey i = None \<or> optimizerCacheKey (stored i) = None then
        BundleNotCached MissingOptimizerCacheKey None
      else decide_from_step_3 i)"

text \<open>
  Section 4.3 of the spec word for word: step 2 asks only whether the supplied current
  optimizer cache key is absent.
\<close>

definition decision_of_section_4_3 :: "DecisionInput \<Rightarrow> BundleCacheEvent" where
  "decision_of_section_4_3 i =
     (if \<not> cache_enabled i then BundleNotCached CacheDisabled None
      else if current_optimizerCacheKey i = None then
        BundleNotCached MissingOptimizerCacheKey None
      else decide_from_step_3 i)"

text \<open>The inputs of the integration tests: the three files of the fixture plugin, their
  hashes, and the record each test stores.\<close>

definition foo_files :: "string list" where
  "foo_files = [''/repo/plugins/foo/public/ext.ts'', ''/repo/plugins/foo/public/index.ts'',
                ''/repo/plugins/foo/public/lib.ts'']"

definition foo_hashes :: Hashes where
  "foo_hashes = [(''/repo/plugins/foo/public/ext.ts'', Some ''h-ext''),
                 (''/repo/plugins/foo/public/index.ts'', Some ''h-index''),
                 (''/repo/plugins/foo/public/lib.ts'', Some ''h-lib'')]"

definition foo_record :: CacheRecord where
  "foo_record =
     \<lparr>bundleRefExportIds = Some [],
      optimizerCacheKey = Some (JStr ''optimizerCacheKey''),
      cacheKey = Some (createCacheKey foo_bundle foo_files foo_hashes),
      moduleCount = Some 3, workUnits = None, files = Some foo_files\<rparr>"

definition test_input :: "bool \<Rightarrow> CacheRecord \<Rightarrow> DecisionInput" where
  "test_input enabled r =
     \<lparr>cache_enabled = enabled,
      current_optimizerCacheKey = Some (JStr ''optimizerCacheKey''),
      stored = r, resolved_exportIds = [], the_bundle = foo_bundle,
      current_files = foo_files, current_hashes = foo_hashes\<rparr>"

section \<open>The compiler worker (packages/osd-optimizer/src/worker/run\_compilers.ts)\<close>

definition EXTRA_SCSS_WORK_UNITS :: nat where
  "EXTRA_SCSS_WORK_UNITS = 100"

record WorkerConfig =
  watch :: bool
  profileWebpack :: bool
  optimizerCacheKey :: "json option"

text \<open>
  Modelled from the spec: \<^verbatim>\<open>./webpack_helpers\<close> (\<^verbatim>\<open>isNormalModule\<close>, \<^verbatim>\<open>isConcatenatedModule\<close>,
  \<^verbatim>\<open>isExternalModule\<close>, \<^verbatim>\<open>isIgnoredModule\<close>, \<^verbatim>\<open>getModulePath\<close>) and \<^verbatim>\<open>./bundle_ref_module\<close>
  are missing from the sources. A module is one of the kinds that the loop tells apart,
  with what the loop reads of it: the path and the \<^verbatim>\<open>buildInfo.fileDependencies\<close> of a
  normal module, the \<^verbatim>\<open>ref.exportId\<close> of a bundle reference, the \<^verbatim>\<open>modules\<close> of a
  concatenated module, and \<^verbatim>\<open>inspect(module)\<close> of any other object.
\<close>

datatype Module =
    NormalModule string "string list"
  | BundleRefModule string
  | ConcatenatedModule "Module list"
  | ExternalModule
  | IgnoredModule
  | OtherModule string

text \<open>
  Modelled from the spec: \<^verbatim>\<open>parseFilePath\<close> (\<^verbatim>\<open>../common\<close>) is missing from the sources.
  A POSIX path is split at its slashes: the part before the first slash is the root
  (\<^verbatim>\<open>/\<close> when it is empty), the last part is the file name, and the parts between them
  are the directory names.
\<close>

fun split_slash :: "string \<Rightarrow> string list" where
  "split_slash [] = [[]]"
| "split_slash (c # cs) =
     (if c = CHR ''/'' then [] # split_slash cs
      else case split_slash cs of
             [] \<Rightarrow> [[c]]
           | w # ws \<Rightarrow> (c # w) # ws)"

record ParsedPath =
  root :: string
  dirs :: "string list"
  filename :: "string option"

definition parseFilePath :: "string \<Rightarrow> ParsedPath" where
  "parseFilePath path =
     (case split_slash path of
        [] \<Rightarrow> \<lparr>root = ''/'', dirs = [], filename = None\<rparr>
      | r # others \<Rightarrow>
          \<lparr>root = (if r = [] then ''/'' else r),
           dirs = butlast others,
           filename = (if others = [] \<or> last others = [] then None else Some (last others))\<rparr>)"

text \<open>\<^verbatim>\<open>Path.join(root, ...names)\<close> for a root and names as \<open>parseFilePath\<close> gives them:
  the names after the root, with one slash between them.\<close>

fun join_slash :: "string list \<Rightarrow> string" where
  "join_slash [] = []"
| "join_slash [x] = x"
| "join_slash (x # y # ys) = x @ ''/'' @ join_slash (y # ys)"

definition Path_join :: "string \<Rightarrow> string list \<Rightarrow> string" where
  "Path_join r names = (if r = ''/'' then ''/'' @ join_slash names else join_slash (r # names))"

text \<open>\<^verbatim>\<open>Array.prototype.lastIndexOf\<close>: the last index of the element, or -1.\<close>

fun lastIndexOf :: "'a list \<Rightarrow> 'a \<Rightarrow> int" where
  "lastIndexOf [] x = - 1"
| "lastIndexOf (y # ys) x =
     (let i = lastIndexOf ys x in
      if 0 \<le> i then i + 1 else if y = x then 0 else - 1)"

fun startsWith :: "string \<Rightarrow> string \<Rightarrow> bool" where
  "startsWith s [] = True"
| "startsWith [] (p # ps) = False"
| "startsWith (c # cs) (p # ps) = (c = p \<and> startsWith cs ps)"

definition endsWith :: "string \<Rightarrow> string \<Rightarrow> bool" where
  "endsWith s e = startsWith (rev s) (rev e)"

text \<open>\<^verbatim>\<open>Set.prototype.add\<close> on a set of strings, kept in insertion order.\<close>

definition Set_add :: "string \<Rightarrow> string list \<Rightarrow> string list" where
  "Set_add x xs = (if x \<in> set xs then xs else xs @ [x])"

text \<open>The local variables of the loop over \<^verbatim>\<open>stats.compilation.modules\<close>.\<close>

record Pass =
  bundleRefExportIds :: "string list"
  referencedFiles :: "string list"
  moduleCount :: nat
  workUnits :: nat

text \<open>
  The referenced file of a normal module below \<^verbatim>\<open>node_modules\<close>. Reading
  \<^verbatim>\<open>parsedPath.dirs[nmIndex + 1]\<close> past the end of the array gives \<^verbatim>\<open>undefined\<close>, and
  calling \<^verbatim>\<open>startsWith\<close> on it throws a \<^verbatim>\<open>TypeError\<close>.
\<close>

definition package_json_of :: "ParsedPath \<Rightarrow> error + string" where
  "package_json_of parsedPath =
     (let nmIndex = nat (lastIndexOf (dirs parsedPath) ''node_modules'') in
      if nmIndex + 1 < length (dirs parsedPath) then
        (let isScoped = startsWith (dirs parsedPath ! (nmIndex + 1)) ''@'' in
         Inr (Path_join (root parsedPath)
                (take (nmIndex + 1 + (if isScoped then 2 else 1)) (dirs parsedPath)
                 @ [''package.json''])))
      else Inl (TypeError ''Cannot read property 'startsWith' of undefined''))"

fun classify_module :: "Pass \<Rightarrow> Module \<Rightarrow> error + Pass" where
  "classify_module st (NormalModule path fileDependencies) =
     (let st1 = st\<lparr>Pass.moduleCount := Pass.moduleCount st + 1\<rparr>;
          parsedPath = parseFilePath path in
      if ''node_modules'' \<notin> set (dirs parsedPath) then
        (let st2 = st1\<lparr>referencedFiles := Set_add path (referencedFiles st1)\<rparr> in
         if endsWith path ''.scss'' then
           Inr (st2\<lparr>Pass.workUnits := Pass.workUnits st2 + EXTRA_SCSS_WORK_UNITS,
                     referencedFiles := foldl (\<lambda>fs depPath. Set_add depPath fs)
                                          (referencedFiles st2) fileDependencies\<rparr>)
         else Inr st2)
      else
        and_then (package_json_of parsedPath)
          (\<lambda>p. Inr (st1\<lparr>referencedFiles := Set_add p (referencedFiles st1)\<rparr>)))"
| "classify_module st (BundleRefModule exportId) =
     Inr (st\<lparr>Pass.bundleRefExportIds := Pass.bundleRefExportIds st @ [exportId]\<rparr>)"
| "classify_module st (ConcatenatedModule ms) =
     Inr (st\<lparr>Pass.moduleCount := Pass.moduleCount st + length ms\<rparr>)"
| "classify_module st ExternalModule = Inr st"
| "classify_module st IgnoredModule = Inr st"
| "classify_module st (OtherModule inspected) =
     Inl (Error (''Unexpected module type: '' @ inspected))"

fun classify_modules :: "Pass \<Rightarrow> Module list \<Rightarrow> error + Pass" where
  "classify_modules st [] = Inr st"
| "classify_modules st (m # ms) =
     and_then (classify_module st m) (\<lambda>st'. classify_modules st' ms)"

text \<open>What the handler reads of \<^verbatim>\<open>stats\<close>: \<^verbatim>\<open>compilation.needAdditionalPass\<close>, the message
  of \<^verbatim>\<open>failedStatsToErrorMessage\<close> when \<^verbatim>\<open>isFailureStats\<close> holds, the set
  \<^verbatim>\<open>compilation.fileDependencies\<close> and \<^verbatim>\<open>compilation.modules\<close>.\<close>

record Stats =
  needAdditionalPass :: bool
  failure :: "string option"
  fileDependencies :: "string list"
  modules :: "Module list"

datatype CompilerMsg =
    Running string
  | CompilerSuccess string nat
  | CompilerFailure string string
  | CompilerError string string

text \<open>
  What the handler does not decide: whether \<^verbatim>\<open>Fs.writeFileSync\<close> of \<^verbatim>\<open>stats.json\<close> in the
  given output directory throws, what the promise of \<^verbatim>\<open>getHashes(files)\<close> settles to
  (\<open>Inl\<close>: rejected), and whether \<^verbatim>\<open>bundle.cache.set\<close> throws.
\<close>

record Env =
  writeFileSync :: "string \<Rightarrow> error option"
  getHashes :: "string list \<Rightarrow> error + Hashes"
  cache_set :: "CacheRecord \<Rightarrow> error option"

text \<open>The initial values of the loop variables.\<close>

definition initial_pass :: "Bundle \<Rightarrow> Stats \<Rightarrow> Pass" where
  "initial_pass b stats =
     \<lparr>bundleRefExportIds = [],
      referencedFiles =
        (case manifestPath b of
           None \<Rightarrow> []
         | Some p \<Rightarrow> if p = [] then [] else [p]),
      moduleCount = 0,
      workUnits = length (remdups (fileDependencies stats))\<rparr>"

definition new_record :: "WorkerConfig \<Rightarrow> Bundle \<Rightarrow> Pass \<Rightarrow> string list \<Rightarrow> Hashes \<Rightarrow> CacheRecord" where
  "new_record workerConfig b st fs hs =
     \<lparr>CacheRecord.bundleRefExportIds = Some (Pass.bundleRefExportIds st),
      CacheRecord.optimizerCacheKey = WorkerConfig.optimizerCacheKey workerConfig,
      cacheKey = Some (createCacheKey b fs hs),
      CacheRecord.moduleCount = Some (Pass.moduleCount st),
      CacheRecord.workUnits = Some (Pass.workUnits st),
      files = Some fs\<rparr>"

text \<open>
  The background task \<^verbatim>\<open>getHashes(files).then(...set...).catch(...)\<close>: the record that the
  store holds once the task has settled, if one was written. A rejection and a throw
  inside \<^verbatim>\<open>then\<close> both end in the empty \<^verbatim>\<open>catch\<close>.
\<close>

definition persist :: "Env \<Rightarrow> WorkerConfig \<Rightarrow> Bundle \<Rightarrow> Pass \<Rightarrow> string list \<Rightarrow> CacheRecord option" where
  "persist env workerConfig b st fs =
     (case getHashes env fs of
        Inl _ \<Rightarrow> None
      | Inr hs \<Rightarrow>
          (case cache_set env (new_record workerConfig b st fs hs) of
             Some _ \<Rightarrow> None
           | None \<Rightarrow> Some (new_record workerConfig b st fs hs)))"

text \<open>The outcome of one call of the \<^verbatim>\<open>done\<close> handler: the message it maps the stats to
  (\<open>None\<close>: nothing is sent), whether \<^verbatim>\<open>done$\<close> is scheduled, and the record written in
  the background.\<close>

record Completion =
  msg :: "CompilerMsg option"
  done_scheduled :: bool
  written :: "CacheRecord option"

definition complete :: "Env \<Rightarrow> WorkerConfig \<Rightarrow> Bundle \<Rightarrow> Stats \<Rightarrow> error + Completion" where
  "complete env workerConfig b stats =
     (if needAdditionalPass stats then
        Inr \<lparr>msg = None, done_scheduled = False, written = None\<rparr>
      else
        case (if profileWebpack workerConfig then writeFileSync env (outputDir b) else None) of
          Some e \<Rightarrow> Inl e
        | None \<Rightarrow>
            (case failure stats of
               Some f \<Rightarrow>
                 Inr \<lparr>msg = Some (CompilerFailure (id' b) f),
                      done_scheduled = \<not> watch workerConfig, written = None\<rparr>
             | None \<Rightarrow>
                 and_then (classify_modules (initial_pass b stats) (modules stats))
                   (\<lambda>st.
                      let fs = sort (referencedFiles st) in
                      Inr \<lparr>msg = Some (CompilerSuccess (id' b) (Pass.moduleCount st)),
                           done_scheduled = \<not> watch workerConfig,
                           written = persist env workerConfig b st fs\<rparr>)))"

text \<open>What the event stream sees of a call: the error thrown or the message sent.\<close>

definition emitted :: "error + Completion \<Rightarrow> error + CompilerMsg option" where
  "emitted r = (case r of Inl e \<Rightarrow> Inl e | Inr c \<Rightarrow> Inr (msg c))"

text \<open>The modules that get the extra weight: normal modules outside \<^verbatim>\<open>node_modules\<close>
  whose path ends in \<^verbatim>\<open>.scss\<close>; and the stylesheet modules of a pass, wherever they are.\<close>

fun is_stylesheet_module :: "Module \<Rightarrow> bool" where
  "is_stylesheet_module (NormalModule path deps) = endsWith path ''.scss''"
| "is_stylesheet_module _ = False"

fun is_in_tree_stylesheet_module :: "Module \<Rightarrow> bool" where
  "is_in_tree_stylesheet_module (NormalModule path deps) =
     (''node_modules'' \<notin> set (dirs (parseFilePath path)) \<and> endsWith path ''.scss'')"
| "is_in_tree_stylesheet_module _ = False"

fun is_other_module :: "Module \<Rightarrow> bool" where
  "is_other_module (OtherModule _) = True"
| "is_other_module _ = False"

section \<open>Predicates and inputs of the statements\<close>

text \<open>A file system whose only file is the manifest of the fixture plugin.\<close>

definition foo_fs :: "read_result \<Rightarrow> string \<Rightarrow> read_result" where
  "foo_fs r p =
     (if p = ''/repo/plugins/foo/opensearch_dashboards.json'' then r else ReadError ''ENOENT'')"

text \<open>A manifest object lists the strings \<open>xs\<close> under the key \<open>k\<close>: the property is an
  array of exactly these strings, or it is missing and \<open>xs\<close> is empty.\<close>

definition lists_strings :: "(string \<times> json) list \<Rightarrow> string \<Rightarrow> string list \<Rightarrow> bool" where
  "lists_strings kvs k xs \<longleftrightarrow>
     (map_of kvs k = None \<and> xs = []) \<or> map_of kvs k = Some (JArr (map JStr xs))"

definition record_without_optimizerCacheKey :: CacheRecord where
  "record_without_optimizerCacheKey = foo_record\<lparr>CacheRecord.optimizerCacheKey := None\<rparr>"

definition record_wrong_in_both :: CacheRecord where
  "record_wrong_in_both =
     foo_record\<lparr>CacheRecord.optimizerCacheKey := Some (JStr ''old''),
                cacheKey := Some (createCacheKey foo_bundle [] [])\<rparr>"

definition test_config :: WorkerConfig where
  "test_config =
     \<lparr>watch = False, profileWebpack = False,
      optimizerCacheKey = Some (JStr ''optimizerCacheKey'')\<rparr>"

text \<open>An environment in which every file hashes to \<^verbatim>\<open>h\<close> and the cache is written, and one
  in which hashing is rejected and the cache cannot be written.\<close>

definition ok_env :: Env where
  "ok_env =
     \<lparr>writeFileSync = (\<lambda>dir. None),
      getHashes = (\<lambda>fs. Inr (map (\<lambda>f. (f, Some ''h'')) fs)),
      cache_set = (\<lambda>r. None)\<rparr>"

definition failing_env :: Env where
  "failing_env =
     \<lparr>writeFileSync = (\<lambda>dir. None),
      getHashes = (\<lambda>fs. Inl (FsError ''EMFILE'')),
      cache_set = (\<lambda>r. Some (FsError ''EACCES''))\<rparr>"

definition stats_of :: "string list \<Rightarrow> Module list \<Rightarrow> Stats" where
  "stats_of deps ms =
     \<lparr>needAdditionalPass = False, failure = None, fileDependencies = deps, modules = ms\<rparr>"

definition foo_pass_stats :: Stats where
  "foo_pass_stats =
     stats_of [''/repo/plugins/foo/public/index.ts'', ''/repo/plugins/foo/public/b.scss'',
               ''/repo/plugins/foo/public/_c.scss'']
       [NormalModule ''/repo/plugins/foo/public/index.ts'' [],
        NormalModule ''/repo/plugins/foo/public/b.scss''
          [''/repo/plugins/foo/public/_c.scss'', ''/repo/plugins/foo/public/b.scss''],
        NormalModule ''/repo/node_modules/@scope/pkg/lib/x.js'' [],
        BundleRefModule ''plugin/bar/public'',
        ConcatenatedModule [ExternalModule, IgnoredModule],
        ExternalModule, IgnoredModule]"

definition dependency_stylesheet_stats :: Stats where
  "dependency_stylesheet_stats =
     stats_of [''/repo/a.ts'', ''/repo/b.ts'', ''/repo/c.ts'']
       [NormalModule ''/repo/node_modules/pkg/a.scss'' []]"

definition file_in_node_modules_stats :: Stats where
  "file_in_node_modules_stats = stats_of [] [NormalModule ''/repo/node_modules/x.js'' []]"

text \<open>The \<^verbatim>\<open>workUnits\<close> of the record a call has written, if it has written one.\<close>

definition persisted_workUnits :: "error + Completion \<Rightarrow> nat option" where
  "persisted_workUnits r =
     (case r of
        Inl _ \<Rightarrow> None
      | Inr c \<Rightarrow> (case written c of None \<Rightarrow> None | Some rec \<Rightarrow> CacheRecord.workUnits rec))"

section \<open>Properties of createCacheKey\<close>

lemma insort_key_fst_map:
  "insort_key fst (x, g x) (map (\<lambda>p. (p, g p)) ys) = map (\<lambda>p. (p, g p)) (insort x ys)"
  by (induction ys) simp_all

lemma sort_key_fst_map:
  "sort_key fst (map (\<lambda>p. (p, g p)) xs) = map (\<lambda>p. (p, g p)) (sort xs)"
  by (induction xs) (simp_all add: insort_key_fst_map)

lemma update_fresh_key:
  "k \<notin> fst ` set al \<Longrightarrow> AList.update k v al = al @ [(k, v)]"
  by (induction al) auto

lemma entriesToObject_snoc:
  "entriesToObject (es @ [(k, v)]) = AList.update k v (entriesToObject es)"
  by (simp add: entriesToObject_def)

text \<open>Assigning entries whose value is a function of the key keeps the first occurrence
  of every key.\<close>

lemma entriesToObject_map:
  "entriesToObject (map (\<lambda>p. (p, g p)) xs) = map (\<lambda>p. (p, g p)) (rev (remdups (rev xs)))"
proof (induction xs rule: rev_induct)
  case Nil
  show ?case by (simp add: entriesToObject_def)
next
  case (snoc x xs)
  let ?f = "\<lambda>p. (p, g p)"
  let ?D = "rev (remdups (rev xs))"
  have step: "entriesToObject (map ?f (xs @ [x])) = AList.update x (g x) (map ?f ?D)"
    using snoc.IH by (simp add: entriesToObject_snoc)
  show ?case
  proof (cases "x \<in> set xs")
    case True
    then have "map_of (map ?f ?D) x = Some (g x)"
      by (simp add: map_of_map_restrict)
    then have "AList.update x (g x) (map ?f ?D) = map ?f ?D"
      by (rule update_triv)
    with step True show ?thesis by simp
  next
    case False
    then have "x \<notin> fst ` set (map ?f ?D)"
      by (auto simp: image_iff)
    then have "AList.update x (g x) (map ?f ?D) = map ?f ?D @ [(x, g x)]"
      by (rule update_fresh_key)
    with step False show ?thesis by simp
  qed
qed

lemma sorted_first_occurrences:
  "sorted (xs :: 'a::linorder list) \<Longrightarrow> sorted (rev (remdups (rev xs)))"
proof (induction xs rule: rev_induct)
  case Nil
  show ?case by simp
next
  case (snoc x xs)
  then show ?case by (auto simp: sorted_append)
qed

lemma first_occurrences_sorted_list:
  "rev (remdups (rev (sort xs))) = sorted_list_of_set (set (xs :: 'a::linorder list))"
proof -
  let ?D = "rev (remdups (rev (sort xs)))"
  have "sorted ?D" by (rule sorted_first_occurrences) simp
  moreover have "distinct ?D" by simp
  moreover have "set ?D = set xs" by simp
  ultimately show ?thesis
    by (metis sorted_list_of_set.idem_if_sorted_distinct)
qed

lemma hashes_createCacheKey:
  "hashes (createCacheKey b paths hs) =
     map (\<lambda>p. (p, Map_get hs p)) (sorted_list_of_set (set paths))"
  by (simp add: createCacheKey_def sort_key_fst_map entriesToObject_map
      first_occurrences_sorted_list)

lemma Map_get_same_entries:
  "distinct (map fst hs) \<Longrightarrow> distinct (map fst hs') \<Longrightarrow> set hs = set hs' \<Longrightarrow>
   Map_get hs = Map_get hs'"
proof -
  assume "distinct (map fst hs)" "distinct (map fst hs')" "set hs = set hs'"
  then have "map_of hs = map_of hs'"
    by (simp add: map_of_inject_set)
  then show ?thesis
    by (simp add: Map_get_def fun_eq_iff)
qed

text \<open>
  Claim C2. \<open>createCacheKey\<close> is a function of the bundle, the set of listed paths and
  the contents of the hash map: two calls whose file lists hold the same paths and whose
  maps hold the same entries, in whatever order, return equal keys. The key is the
  bundle's spec and one entry per listed path, in ascending path order; a path with no
  hash keeps its entry, with the value \<open>None\<close> (undefined).
\<close>

theorem createCacheKey_order_independent:
  assumes "set paths = set paths'"
    and "distinct (map fst hs)" and "distinct (map fst hs')" and "set hs = set hs'"
  shows "createCacheKey b paths hs = createCacheKey b paths' hs'
    \<and> spec (createCacheKey b paths hs) = toSpec b
    \<and> hashes (createCacheKey b paths hs) =
        map (\<lambda>p. (p, Map_get hs p)) (sorted_list_of_set (set paths))
    \<and> sorted (map fst (hashes (createCacheKey b paths hs)))
    \<and> (\<forall>p \<in> set paths. map_of hs p = None \<longrightarrow>
          (p, None) \<in> set (hashes (createCacheKey b paths hs)))"
proof -
  have g: "Map_get hs = Map_get hs'"
    using assms(2-4) by (rule Map_get_same_entries)
  have "hashes (createCacheKey b paths hs) = hashes (createCacheKey b paths' hs')"
    using assms(1) g by (simp add: hashes_createCacheKey)
  moreover have "spec (createCacheKey b paths hs) = spec (createCacheKey b paths' hs')"
    by (simp add: createCacheKey_def)
  ultimately have eq: "createCacheKey b paths hs = createCacheKey b paths' hs'"
    by simp
  have srt: "sorted (map fst (hashes (createCacheKey b paths hs)))"
    by (simp add: hashes_createCacheKey comp_def)
  have undef: "\<forall>p \<in> set paths. map_of hs p = None \<longrightarrow>
      (p, None) \<in> set (hashes (createCacheKey b paths hs))"
    by (auto simp: hashes_createCacheKey Map_get_def image_iff)
  have sp: "spec (createCacheKey b paths hs) = toSpec b"
    by (simp add: createCacheKey_def)
  show ?thesis
    using eq sp srt undef hashes_createCacheKey [of b paths hs] by blast
qed

theorem createCacheKey_order_independent_witness:
  "set [''/r/b.ts'', ''/r/a.ts''] = set [''/r/a.ts'', ''/r/b.ts'', ''/r/a.ts'']
   \<and> distinct (map fst [(''/r/a.ts'', Some ''h1''), (''/r/c.ts'', Some ''h3'')])
   \<and> set [(''/r/a.ts'', Some ''h1''), (''/r/c.ts'', Some ''h3'')] =
      set [(''/r/c.ts'', Some ''h3''), (''/r/a.ts'', Some ''h1'')]
   \<and> createCacheKey foo_bundle [''/r/b.ts'', ''/r/a.ts'']
        [(''/r/a.ts'', Some ''h1''), (''/r/c.ts'', Some ''h3'')] =
      createCacheKey foo_bundle [''/r/a.ts'', ''/r/b.ts'', ''/r/a.ts'']
        [(''/r/c.ts'', Some ''h3''), (''/r/a.ts'', Some ''h1'')]
   \<and> hashes (createCacheKey foo_bundle [''/r/b.ts'', ''/r/a.ts'']
        [(''/r/a.ts'', Some ''h1''), (''/r/c.ts'', Some ''h3'')]) =
      [(''/r/a.ts'', Some ''h1''), (''/r/b.ts'', None)]"
proof -
  have f: "set [''/r/b.ts'', ''/r/a.ts''] = set [''/r/a.ts'', ''/r/b.ts'', ''/r/a.ts'']"
    by auto
  have d1: "distinct (map fst [(''/r/a.ts'', Some ''h1''), (''/r/c.ts'', Some ''h3'')])"
    by simp
  have d2: "distinct (map fst [(''/r/c.ts'', Some ''h3''), (''/r/a.ts'', Some ''h1'')])"
    by simp
  have s: "set [(''/r/a.ts'', Some ''h1''), (''/r/c.ts'', Some ''h3'')] =
      set [(''/r/c.ts'', Some ''h3''), (''/r/a.ts'', Some ''h1'')]"
    by auto
  have h: "hashes (createCacheKey foo_bundle [''/r/b.ts'', ''/r/a.ts'']
        [(''/r/a.ts'', Some ''h1''), (''/r/c.ts'', Some ''h3'')]) =
      [(''/r/a.ts'', Some ''h1''), (''/r/b.ts'', None)]"
    by (simp add: createCacheKey_def entriesToObject_def Map_get_def)
  show ?thesis
    using createCacheKey_order_independent [OF f d1 d2 s, of foo_bundle] f d1 s h by blast
qed

text \<open>
  Claim C10. The key reads the hash map only at the listed paths: two maps that give the
  same answer for every listed path give the same key, whatever else they hold.
\<close>

theorem createCacheKey_only_listed_files:
  assumes "\<forall>p \<in> set paths. Map_get hs p = Map_get hs' p"
  shows "createCacheKey b paths hs = createCacheKey b paths hs'"
proof -
  have "map (\<lambda>p. (p, Map_get hs p)) paths = map (\<lambda>p. (p, Map_get hs' p)) paths"
    using assms by simp
  then show ?thesis unfolding createCacheKey_def by (simp only:)
qed

theorem createCacheKey_only_listed_files_witness:
  "Map_get [(''/r/a.ts'', Some ''h1'')] ''/r/a.ts'' =
     Map_get [(''/r/z.ts'', Some ''h9''), (''/r/a.ts'', Some ''h1'')] ''/r/a.ts''
   \<and> createCacheKey foo_bundle [''/r/a.ts''] [(''/r/a.ts'', Some ''h1'')] =
      createCacheKey foo_bundle [''/r/a.ts'']
        [(''/r/z.ts'', Some ''h9''), (''/r/a.ts'', Some ''h1'')]"
proof -
  have a: "\<forall>p \<in> set [''/r/a.ts'']. Map_get [(''/r/a.ts'', Some ''h1'')] p =
       Map_get [(''/r/z.ts'', Some ''h9''), (''/r/a.ts'', Some ''h1'')] p"
    by (simp add: Map_get_def)
  show ?thesis
    using createCacheKey_only_listed_files [OF a, of foo_bundle] a by simp
qed

section \<open>Properties of parseBundles and toSpec\<close>

lemma and_then_Inr:
  "and_then m f = Inr y \<Longrightarrow> \<exists>x. m = Inr x \<and> f x = Inr y"
  by (cases m) auto

lemma map_throwing_Inr:
  "map_throwing f xs = Inr ys \<Longrightarrow> y \<in> set ys \<Longrightarrow> \<exists>x \<in> set xs. f x = Inr y"
proof (induction xs arbitrary: ys)
  case Nil
  then show ?case by simp
next
  case (Cons x xs)
  then show ?case
    by (cases "f x"; cases "map_throwing f xs") auto
qed

lemma absolute_path_property_Inr:
  "absolute_path_property n v = Inr p \<Longrightarrow> isAbsolute p"
  by (cases "(n, v)" rule: absolute_path_property.cases) (auto split: if_splits)

lemma optional_manifestPath_Inr:
  "optional_manifestPath v = Inr mp \<Longrightarrow> (case mp of None \<Rightarrow> True | Some p \<Rightarrow> isAbsolute p)"
  by (cases v) (auto split: sum.splits option.splits dest: absolute_path_property_Inr
      elim!: and_then.elims)

text \<open>Every bundle that \<open>parseBundles\<close> returns is built by the constructor from a spec
  that satisfies the invariant.\<close>

lemma parse_spec_valid:
  assumes "parse_spec j = Inr b"
  shows "\<exists>s. valid_spec s \<and> b = new_Bundle s"
proof -
  from assms obtain t i ds cd sr od mp bn where
    cd: "absolute_path_property ''contextDir'' (get_property j ''contextDir'') = Inr cd"
    and sr: "absolute_path_property ''sourceRoot'' (get_property j ''sourceRoot'') = Inr sr"
    and od: "absolute_path_property ''outputDir'' (get_property j ''outputDir'') = Inr od"
    and mp: "optional_manifestPath (get_property j ''manifestPath'') = Inr mp"
    and b: "b = new_Bundle \<lparr>type = t, id' = i, publicDirNames = ds, contextDir = cd,
               sourceRoot = sr, outputDir = od, banner = bn, manifestPath = mp\<rparr>"
    unfolding parse_spec_def
    by (auto split: if_splits option.splits dest!: and_then_Inr)
  have "valid_spec \<lparr>type = t, id' = i, publicDirNames = ds, contextDir = cd,
               sourceRoot = sr, outputDir = od, banner = bn, manifestPath = mp\<rparr>"
    using cd sr od mp
    by (auto simp: valid_spec_def split: option.splits
        dest: absolute_path_property_Inr optional_manifestPath_Inr)
  with b show ?thesis by blast
qed

lemma parseBundles_valid:
  assumes "parseBundles inp = Inr bs" and "b \<in> set bs"
  shows "\<exists>s. valid_spec s \<and> b = new_Bundle s"
proof -
  from assms(1) obtain elems where "map_throwing parse_spec elems = Inr bs"
    unfolding parseBundles_def
    by (auto split: js_arg.splits sum.splits json.splits dest!: and_then_Inr)
  from map_throwing_Inr [OF this assms(2)] obtain j where "parse_spec j = Inr b"
    by blast
  then show ?thesis by (rule parse_spec_valid)
qed

text \<open>
  Claim C3. For every bundle built by the constructor from a spec that satisfies the
  invariant of the data model (the directories and the manifest path are absolute),
  \<open>parseBundles\<close> of the JSON text of \<open>[toSpec b]\<close> succeeds with exactly one bundle, and
  that bundle equals \<open>b\<close> in every field: type, id, publicDirNames, contextDir, sourceRoot,
  outputDir, banner and manifestPath.
\<close>

theorem toSpec_roundtrip:
  assumes "valid_spec s"
  shows "parseBundles (Str (JSON_stringify_specs [toSpec (new_Bundle s)])) = Inr [new_Bundle s]
    \<and> toSpec (new_Bundle s) = s"
proof -
  have ts: "toSpec (new_Bundle s) = s"
    by (simp add: toSpec_def new_Bundle_def)
  have abs: "\<And>n p. isAbsolute p \<Longrightarrow> absolute_path_property n (Some (JStr p)) = Inr p"
    by simp
  have strs: "\<And>xs. list_all is_string (map JStr xs)"
    by (simp add: list_all_iff)
  have "parse_spec (spec_to_json s) = Inr (new_Bundle s)"
    using assms
    by (cases "type s"; cases "manifestPath s"; cases "banner s")
      (simp_all add: parse_spec_def spec_to_json_def valid_spec_def abs strs new_Bundle_def
        comp_def)
  then show ?thesis
    by (simp add: parseBundles_def JSON_stringify_specs_def ts)
qed

theorem toSpec_roundtrip_witness:
  "valid_spec foo_spec
   \<and> parseBundles (Str (JSON_stringify_specs [toSpec foo_bundle])) = Inr [foo_bundle]
   \<and> toSpec foo_bundle = foo_spec"
proof -
  have v: "valid_spec foo_spec"
    by (simp add: valid_spec_def foo_spec_def)
  show ?thesis
    unfolding foo_bundle_def using toSpec_roundtrip [OF v] v by blast
qed

section \<open>Properties of readBundleDeps\<close>

lemma or_empty_array_lists_strings:
  "lists_strings kvs k xs \<Longrightarrow> or_empty_array (map_of kvs k) = JArr (map JStr xs)"
  by (auto simp: lists_strings_def)

text \<open>
  Claim C4. A bundle with no manifest path has the implicit dependency \<^verbatim>\<open>core\<close> and no
  explicit one. A bundle whose manifest parses to an object that lists the strings
  \<open>bundles\<close> under \<^verbatim>\<open>requiredBundles\<close> and the strings \<open>plugins\<close> under \<^verbatim>\<open>requiredPlugins\<close>
  (a missing property lists nothing) has the implicit dependencies \<^verbatim>\<open>core\<close> followed by
  \<open>plugins\<close> in their order, and the explicit dependencies \<open>bundles\<close>.
\<close>

theorem readBundleDeps_documented:
  "(manifestPath b = None \<longrightarrow>
      readBundleDeps fs b = Inr \<lparr>implicit = DEFAULT_IMPLICIT_BUNDLE_DEPS, explicit = []\<rparr>)
   \<and> (manifestPath b = Some p \<and> p \<noteq> [] \<and> fs p = Content (JSONText (JObj kvs))
        \<and> lists_strings kvs ''requiredBundles'' bundles
        \<and> lists_strings kvs ''requiredPlugins'' plugins \<longrightarrow>
      readBundleDeps fs b =
        Inr \<lparr>implicit = DEFAULT_IMPLICIT_BUNDLE_DEPS @ plugins, explicit = bundles\<rparr>)"
  by (auto simp: readBundleDeps_def read_manifest_def manifest_deps_def
      or_empty_array_lists_strings list_all_iff comp_def)

theorem readBundleDeps_documented_witness:
  "readBundleDeps (foo_fs (ReadError ''ENOENT'')) (foo_bundle\<lparr>manifestPath := None\<rparr>) =
     Inr \<lparr>implicit = [''core''], explicit = []\<rparr>
   \<and> readBundleDeps
       (foo_fs (Content (JSONText (JObj [(''requiredBundles'', JArr [JStr ''x'']),
                                         (''requiredPlugins'', JArr [JStr ''y''])]))))
       foo_bundle =
     Inr \<lparr>implicit = [''core'', ''y''], explicit = [''x'']\<rparr>"
  using readBundleDeps_documented
         [where b = "foo_bundle\<lparr>manifestPath := None\<rparr>"
            and fs = "foo_fs (ReadError ''ENOENT'')"]
        readBundleDeps_documented
         [where b = foo_bundle
            and p = "''/repo/plugins/foo/opensearch_dashboards.json''"
            and fs = "foo_fs (Content (JSONText
                        (JObj [(''requiredBundles'', JArr [JStr ''x'']),
                               (''requiredPlugins'', JArr [JStr ''y''])])))"
            and kvs = "[(''requiredBundles'', JArr [JStr ''x'']),
                        (''requiredPlugins'', JArr [JStr ''y''])]"
            and bundles = "[''x'']" and plugins = "[''y'']"]
  by (simp add: foo_bundle_def foo_spec_def new_Bundle_def foo_fs_def lists_strings_def
      DEFAULT_IMPLICIT_BUNDLE_DEPS_def)

text \<open>The error behaviour of \<open>readBundleDeps\<close> that holds: a missing manifest file counts
  as the empty object, any other read failure is thrown on, a text that does not parse
  gives an error that names the path, and so does an array with an element that is not a
  string.\<close>

lemma readBundleDeps_missing_file:
  "manifestPath b = Some p \<Longrightarrow> p \<noteq> [] \<Longrightarrow> fs p = ReadError ''ENOENT'' \<Longrightarrow>
   readBundleDeps fs b = Inr \<lparr>implicit = DEFAULT_IMPLICIT_BUNDLE_DEPS, explicit = []\<rparr>"
  by (simp add: readBundleDeps_def read_manifest_def manifest_deps_def
      DEFAULT_IMPLICIT_BUNDLE_DEPS_def)

lemma readBundleDeps_read_failure:
  "manifestPath b = Some p \<Longrightarrow> p \<noteq> [] \<Longrightarrow> fs p = ReadError code \<Longrightarrow> code \<noteq> ''ENOENT'' \<Longrightarrow>
   readBundleDeps fs b = Inl (FsError code)"
  by (simp add: readBundleDeps_def read_manifest_def)

lemma readBundleDeps_parse_failure:
  "manifestPath b = Some p \<Longrightarrow> p \<noteq> [] \<Longrightarrow> fs p = Content (NotJSON m) \<Longrightarrow>
   readBundleDeps fs b =
     Inl (Error (''unable to parse manifest at ['' @ p @ ''], error: ['' @ m @ '']''))"
  by (simp add: readBundleDeps_def read_manifest_def unable_to_parse_manifest_def)

lemma readBundleDeps_not_an_object:
  "manifestPath b = Some p \<Longrightarrow> p \<noteq> [] \<Longrightarrow> fs p = Content (JSONText v) \<Longrightarrow> \<not> is_object v \<Longrightarrow>
   readBundleDeps fs b = Inl (expected_arrays_error p)"
  by (simp add: readBundleDeps_def read_manifest_def manifest_deps_def)

lemma readBundleDeps_array_with_other_element:
  "manifestPath b = Some p \<Longrightarrow> p \<noteq> [] \<Longrightarrow> fs p = Content (JSONText (JObj kvs)) \<Longrightarrow>
   map_of kvs k = Some (JArr xs) \<Longrightarrow> \<not> list_all is_string xs \<Longrightarrow>
   k = ''requiredBundles'' \<or> k = ''requiredPlugins'' \<Longrightarrow>
   isl (spread (or_empty_array (map_of kvs ''requiredPlugins''))) \<or>
   readBundleDeps fs b = Inl (expected_arrays_error p)"
  by (cases "spread (or_empty_array (map_of kvs ''requiredPlugins''))")
    (auto simp: readBundleDeps_def read_manifest_def manifest_deps_def Let_def)

text \<open>
  Claim C5. The claim has every malformed \<^verbatim>\<open>requiredBundles\<close> or \<^verbatim>\<open>requiredPlugins\<close> raise
  the validation error that names the manifest path. The code spreads
  \<^verbatim>\<open>requiredPlugins\<close> into the implicit list before it validates: a manifest whose
  \<^verbatim>\<open>requiredPlugins\<close> is the string \<^verbatim>\<open>"ab"\<close> is accepted, with the implicit dependencies
  \<^verbatim>\<open>core\<close>, \<^verbatim>\<open>a\<close>, \<^verbatim>\<open>b\<close>; the number 5 gives the runtime's \<^verbatim>\<open>TypeError\<close>, which does not name
  the path; and \<^verbatim>\<open>null\<close> under \<^verbatim>\<open>requiredBundles\<close> is read as no entry.
\<close>

theorem readBundleDeps_malformed_requiredPlugins:
  "readBundleDeps
     (foo_fs (Content (JSONText (JObj [(''requiredPlugins'', JStr ''ab'')])))) foo_bundle =
     Inr \<lparr>implicit = [''core'', ''a'', ''b''], explicit = []\<rparr>
   \<and> readBundleDeps
     (foo_fs (Content (JSONText (JObj [(''requiredPlugins'', JNum 5)])))) foo_bundle =
     Inl (TypeError ''parsedManifest.requiredPlugins is not iterable'')
   \<and> readBundleDeps
     (foo_fs (Content (JSONText (JObj [(''requiredBundles'', JNull)])))) foo_bundle =
     Inr \<lparr>implicit = [''core''], explicit = []\<rparr>"
  by (simp add: readBundleDeps_def foo_fs_def read_manifest_def manifest_deps_def
      foo_bundle_def foo_spec_def new_Bundle_def DEFAULT_IMPLICIT_BUNDLE_DEPS_def)

section \<open>Properties of the cache decision\<close>

text \<open>
  Claim C1, as amended. The decision for a bundle is the first of seven cases that
  applies: the cache is disabled; the current optimizer cache key or the one of the
  stored record is missing; the two optimizer cache keys differ; the stored export ids
  differ as a set from the resolved ones; the stored record has no cache key; the stored
  cache key differs from the recomputed one; otherwise the bundle is cached. The cases
  exclude one another and cover every input, so there is exactly one decision. The third
  case does not look at the cache key: a record that is wrong in both keys is reported
  with the optimizer cache key mismatch only.
\<close>

theorem cache_decision_priority:
  "(\<not> cache_enabled i \<longrightarrow> getBundleCacheEvent i = BundleNotCached CacheDisabled None)
   \<and> (cache_enabled i
        \<and> (current_optimizerCacheKey i = None \<or> CacheRecord.optimizerCacheKey (stored i) = None) \<longrightarrow>
       getBundleCacheEvent i = BundleNotCached MissingOptimizerCacheKey None)
   \<and> (cache_enabled i \<and> current_optimizerCacheKey i = Some new
        \<and> CacheRecord.optimizerCacheKey (stored i) = Some old \<and> old \<noteq> new \<longrightarrow>
       getBundleCacheEvent i = BundleNotCached OptimizerCacheKeyMismatch
          (Some (OptimizerCacheKeyDiff (Some old) (Some new))))
   \<and> (cache_enabled i \<and> current_optimizerCacheKey i = Some new
        \<and> CacheRecord.optimizerCacheKey (stored i) = Some new
        \<and> set (stored_exportIds i) \<noteq> set (resolved_exportIds i) \<longrightarrow>
       getBundleCacheEvent i = BundleNotCached BundleReferencesOutdated
          (Some (BundleRefsDiff (stored_exportIds i) (resolved_exportIds i))))
   \<and> (cache_enabled i \<and> current_optimizerCacheKey i = Some new
        \<and> CacheRecord.optimizerCacheKey (stored i) = Some new
        \<and> set (stored_exportIds i) = set (resolved_exportIds i)
        \<and> cacheKey (stored i) = None \<longrightarrow>
       getBundleCacheEvent i = BundleNotCached MissingCacheKey None)
   \<and> (cache_enabled i \<and> current_optimizerCacheKey i = Some new
        \<and> CacheRecord.optimizerCacheKey (stored i) = Some new
        \<and> set (stored_exportIds i) = set (resolved_exportIds i)
        \<and> cacheKey (stored i) = Some k \<and> k \<noteq> current_cacheKey i \<longrightarrow>
       getBundleCacheEvent i = BundleNotCached CacheKeyMismatch
          (Some (CacheKeyDiff k (current_cacheKey i))))
   \<and> (cache_enabled i \<and> current_optimizerCacheKey i = Some new
        \<and> CacheRecord.optimizerCacheKey (stored i) = Some new
        \<and> set (stored_exportIds i) = set (resolved_exportIds i)
        \<and> cacheKey (stored i) = Some (current_cacheKey i) \<longrightarrow>
       getBundleCacheEvent i = BundleCached)"
  by (simp add: getBundleCacheEvent_def decide_from_step_3_def)

text \<open>The theorem at the inputs of the integration tests: everything up to date, the
  cache disabled, and a record that is wrong in both keys.\<close>

theorem cache_decision_priority_witness:
  "getBundleCacheEvent (test_input True foo_record) = BundleCached
   \<and> getBundleCacheEvent (test_input False foo_record) = BundleNotCached CacheDisabled None
   \<and> getBundleCacheEvent (test_input True record_wrong_in_both) =
       BundleNotCached OptimizerCacheKeyMismatch
         (Some (OptimizerCacheKeyDiff (Some (JStr ''old''))
                  (Some (JStr ''optimizerCacheKey''))))"
  using cache_decision_priority
          [of "test_input True foo_record" "JStr ''optimizerCacheKey''"]
        cache_decision_priority [of "test_input False foo_record"]
        cache_decision_priority
          [of "test_input True record_wrong_in_both" "JStr ''optimizerCacheKey''"
              "JStr ''old''"]
  by (simp add: test_input_def foo_record_def record_wrong_in_both_def stored_exportIds_def
      current_cacheKey_def)

text \<open>
  Claim C1 as stated fails at the input of the test "emits bundle not cached event when
  optimizerCacheKey is missing": the stored record has no optimizer cache key and the
  current key is given. The test expects "missing optimizer cache key"; by the words of
  section 4.3 the current key is present, so step 2 does not apply and step 3 reports an
  optimizer cache key mismatch.
\<close>

theorem cache_decision_section_4_3_counterexample:
  "getBundleCacheEvent (test_input True record_without_optimizerCacheKey) =
     BundleNotCached MissingOptimizerCacheKey None
   \<and> decision_of_section_4_3 (test_input True record_without_optimizerCacheKey) =
     BundleNotCached OptimizerCacheKeyMismatch
       (Some (OptimizerCacheKeyDiff None (Some (JStr ''optimizerCacheKey''))))"
  by (simp add: getBundleCacheEvent_def decision_of_section_4_3_def decide_from_step_3_def
      test_input_def record_without_optimizerCacheKey_def foo_record_def)

text \<open>The model gives the reasons that the other integration tests expect: a stored
  optimizer cache key \<^verbatim>\<open>'old'\<close>, stored export ids that no longer resolve, a record with no
  cache key, and a stale cache key.\<close>

lemma integration_test_expectations:
  "getBundleCacheEvent
     (test_input True (foo_record\<lparr>CacheRecord.optimizerCacheKey := Some (JStr ''old'')\<rparr>)) =
     BundleNotCached OptimizerCacheKeyMismatch
       (Some (OptimizerCacheKeyDiff (Some (JStr ''old'')) (Some (JStr ''optimizerCacheKey''))))"
  "getBundleCacheEvent
     (test_input True
        (foo_record\<lparr>CacheRecord.bundleRefExportIds := Some [''plugin/bar/public'']\<rparr>)) =
     BundleNotCached BundleReferencesOutdated
       (Some (BundleRefsDiff [''plugin/bar/public''] []))"
  "getBundleCacheEvent (test_input True (foo_record\<lparr>cacheKey := None\<rparr>)) =
     BundleNotCached MissingCacheKey None"
  "getBundleCacheEvent
     (test_input True (foo_record\<lparr>cacheKey := Some (createCacheKey foo_bundle [] [])\<rparr>)) =
     BundleNotCached CacheKeyMismatch
       (Some (CacheKeyDiff (createCacheKey foo_bundle [] [])
                (createCacheKey foo_bundle foo_files foo_hashes)))"
  by (simp_all add: getBundleCacheEvent_def decide_from_step_3_def test_input_def
      foo_record_def stored_exportIds_def current_cacheKey_def createCacheKey_def
      entriesToObject_def foo_files_def)

section \<open>Properties of the compiler worker\<close>

subsection \<open>Modules of dependency packages\<close>

lemma lastIndexOf_notin: "x \<notin> set xs \<Longrightarrow> lastIndexOf xs x = - 1"
  by (induction xs) (auto simp: Let_def)

lemma lastIndexOf_last_occurrence:
  "x \<notin> set ys \<Longrightarrow> lastIndexOf (pre @ x # ys) x = int (length pre)"
  by (induction pre) (auto simp: Let_def lastIndexOf_notin)

text \<open>When a package directory follows the last \<^verbatim>\<open>node_modules\<close>, the referenced file is
  the \<^verbatim>\<open>package.json\<close> of that package; the name of a scoped package has two segments.\<close>

lemma package_json_of_unscoped:
  assumes "dirs pp = pre @ ''node_modules'' # pkg # rest"
    and "''node_modules'' \<notin> set (pkg # rest)" and "\<not> startsWith pkg ''@''"
  shows "package_json_of pp =
     Inr (Path_join (root pp) (pre @ [''node_modules'', pkg, ''package.json'']))"
  using assms by (simp add: package_json_of_def lastIndexOf_last_occurrence nth_append)

lemma package_json_of_scoped:
  assumes "dirs pp = pre @ ''node_modules'' # scope # pkg # rest"
    and "''node_modules'' \<notin> set (scope # pkg # rest)" and "startsWith scope ''@''"
  shows "package_json_of pp =
     Inr (Path_join (root pp) (pre @ [''node_modules'', scope, pkg, ''package.json'']))"
  using assms by (simp add: package_json_of_def lastIndexOf_last_occurrence nth_append)

lemma package_json_of_no_package_dir:
  assumes "dirs pp = pre @ [''node_modules'']"
  shows "package_json_of pp = Inl (TypeError ''Cannot read property 'startsWith' of undefined'')"
  using assms lastIndexOf_last_occurrence [of "''node_modules''" "[]" pre]
  by (simp add: package_json_of_def)

lemma dependency_module_tracks_package_json:
  assumes "''node_modules'' \<in> set (dirs (parseFilePath path))"
    and "package_json_of (parseFilePath path) = Inr p"
  shows "classify_module st (NormalModule path deps) =
     Inr (st\<lparr>Pass.moduleCount := Pass.moduleCount st + 1,
             referencedFiles := Set_add p (referencedFiles st)\<rparr>)"
  using assms by (simp add: Let_def)

lemma scoped_package_scenario:
  "classify_module st (NormalModule ''/repo/node_modules/@scope/pkg/lib/x.js'' deps) =
     Inr (st\<lparr>Pass.moduleCount := Pass.moduleCount st + 1,
             referencedFiles :=
               Set_add ''/repo/node_modules/@scope/pkg/package.json'' (referencedFiles st)\<rparr>)"
  by (simp add: parseFilePath_def package_json_of_def Path_join_def Let_def)

text \<open>
  Claim C6. The claim has every normal module below \<^verbatim>\<open>node_modules\<close> resolved to a
  \<^verbatim>\<open>package.json\<close>. A module that is a file directly inside \<^verbatim>\<open>node_modules\<close> has no
  directory after \<^verbatim>\<open>node_modules\<close>: the loop reads \<^verbatim>\<open>dirs[nmIndex + 1]\<close> as \<^verbatim>\<open>undefined\<close>,
  the call of \<^verbatim>\<open>startsWith\<close> throws, and the handler ends with a \<^verbatim>\<open>TypeError\<close> in place of
  a message and a cache record.
\<close>

theorem file_directly_in_node_modules:
  "parseFilePath ''/repo/node_modules/x.js'' =
     \<lparr>root = ''/'', dirs = [''repo'', ''node_modules''], filename = Some ''x.js''\<rparr>
   \<and> classify_module st (NormalModule ''/repo/node_modules/x.js'' deps) =
     Inl (TypeError ''Cannot read property 'startsWith' of undefined'')
   \<and> emitted (complete ok_env test_config foo_bundle file_in_node_modules_stats) =
     Inl (TypeError ''Cannot read property 'startsWith' of undefined'')"
  by (simp add: emitted_def complete_def ok_env_def test_config_def
      file_in_node_modules_stats_def stats_of_def initial_pass_def
      parseFilePath_def package_json_of_def Let_def)

subsection \<open>Unexpected modules\<close>

lemma classify_module_error_kind:
  "classify_module st m = Inl e \<Longrightarrow> \<not> is_other_module m \<Longrightarrow> \<exists>t. e = TypeError t"
  by (cases m) (auto simp: Let_def package_json_of_def split: if_splits elim!: and_then.elims)

lemma classify_modules_error_kind:
  "classify_modules st ms = Inl e \<Longrightarrow> \<forall>m \<in> set ms. \<not> is_other_module m \<Longrightarrow>
   \<exists>t. e = TypeError t"
proof (induction ms arbitrary: st)
  case Nil
  then show ?case by simp
next
  case (Cons m ms)
  show ?case
  proof (cases "classify_module st m")
    case (Inl e')
    with Cons.prems show ?thesis
      using classify_module_error_kind [of st m e] by simp
  next
    case (Inr st1)
    with Cons.prems Cons.IH [of st1] show ?thesis by simp
  qed
qed

lemma classify_modules_append:
  "classify_modules st (ms @ ms') =
     and_then (classify_modules st ms) (\<lambda>st'. classify_modules st' ms')"
proof (induction ms arbitrary: st)
  case Nil
  show ?case by simp
next
  case (Cons m ms)
  then show ?case by (cases "classify_module st m") simp_all
qed

text \<open>
  Claim C7. A module of no known kind ends the loop with the error "Unexpected module
  type", unless a module before it has already thrown; so a list that holds such a
  module never classifies without an error. A list of normal, bundle reference,
  concatenated, external and ignored modules never reaches that \<^verbatim>\<open>throw\<close>: no \<open>Error\<close>
  comes out of its classification.
\<close>

theorem unexpected_module_is_fatal:
  "classify_modules st (ms @ OtherModule d # rest) =
     (case classify_modules st ms of
        Inl e \<Rightarrow> Inl e
      | Inr st' \<Rightarrow> Inl (Error (''Unexpected module type: '' @ d)))
   \<and> ((\<exists>m \<in> set ms. is_other_module m) \<longrightarrow> isl (classify_modules st ms))
   \<and> ((\<forall>m \<in> set ms. \<not> is_other_module m) \<longrightarrow>
        (\<forall>t. classify_modules st ms \<noteq> Inl (Error t)))"
proof -
  have a: "\<And>ms d rest. classify_modules st (ms @ OtherModule d # rest) =
     (case classify_modules st ms of
        Inl e \<Rightarrow> Inl e
      | Inr st' \<Rightarrow> Inl (Error (''Unexpected module type: '' @ d)))"
    by (simp add: classify_modules_append split: sum.splits)
  have b: "isl (classify_modules st ms)" if "\<exists>m \<in> set ms. is_other_module m"
  proof -
    from that obtain m where m: "m \<in> set ms" "is_other_module m" by blast
    from m(2) obtain d where "m = OtherModule d" by (cases m) auto
    with m(1) obtain pre rest where "ms = pre @ OtherModule d # rest"
      by (auto dest: split_list)
    then show ?thesis
      using a [of pre d rest] by (simp split: sum.splits)
  qed
  have c: "\<forall>t. classify_modules st ms \<noteq> Inl (Error t)"
    if "\<forall>m \<in> set ms. \<not> is_other_module m"
    using classify_modules_error_kind [OF _ that] by fastforce
  from a b c show ?thesis by blast
qed

theorem unexpected_module_is_fatal_witness:
  "classify_modules (initial_pass foo_bundle foo_pass_stats)
     ([ExternalModule] @ OtherModule ''Foo {}'' # [IgnoredModule]) =
     Inl (Error ''Unexpected module type: Foo {}'')
   \<and> isl (classify_modules (initial_pass foo_bundle foo_pass_stats)
            [ExternalModule, OtherModule ''Foo {}'', IgnoredModule])
   \<and> classify_modules (initial_pass foo_bundle foo_pass_stats) (modules foo_pass_stats) \<noteq>
       Inl (Error ''Unexpected module type: Foo {}'')"
  using unexpected_module_is_fatal
          [of "initial_pass foo_bundle foo_pass_stats" "[ExternalModule]" "''Foo {}''"
              "[IgnoredModule]"]
        unexpected_module_is_fatal
          [of "initial_pass foo_bundle foo_pass_stats"
              "[ExternalModule, OtherModule ''Foo {}'', IgnoredModule]"]
        unexpected_module_is_fatal
          [of "initial_pass foo_bundle foo_pass_stats" "modules foo_pass_stats"]
  by (simp add: foo_pass_stats_def stats_of_def)

subsection \<open>Work units\<close>

lemma classify_module_workUnits:
  "classify_module st m = Inr st' \<Longrightarrow>
   Pass.workUnits st' = Pass.workUnits st
      + (if is_in_tree_stylesheet_module m then EXTRA_SCSS_WORK_UNITS else 0)"
  by (cases m) (auto simp: Let_def split: if_splits sum.splits elim!: and_then.elims)

lemma classify_modules_workUnits:
  "classify_modules st ms = Inr st' \<Longrightarrow>
   Pass.workUnits st' = Pass.workUnits st
      + EXTRA_SCSS_WORK_UNITS * length (filter is_in_tree_stylesheet_module ms)"
proof (induction ms arbitrary: st)
  case Nil
  then show ?case by simp
next
  case (Cons m ms)
  from Cons.prems obtain st1 where
    1: "classify_module st m = Inr st1" and 2: "classify_modules st1 ms = Inr st'"
    by (auto dest!: and_then_Inr)
  show ?case
    using classify_module_workUnits [OF 1] Cons.IH [OF 2] by simp
qed

text \<open>A terminal pass that does not fail, whose modules classify without an error and
  whose hashes and cache write succeed, persists a record with work units.\<close>

lemma persisted_workUnits_Some:
  assumes "\<not> needAdditionalPass stats" and "failure stats = None"
    and "\<not> profileWebpack cfg \<or> writeFileSync env (outputDir b) = None"
    and "classify_modules (initial_pass b stats) (modules stats) = Inr st"
    and "getHashes env (sort (referencedFiles st)) = Inr hs"
    and "cache_set env (new_record cfg b st (sort (referencedFiles st)) hs) = None"
  shows "persisted_workUnits (complete env cfg b stats) = Some (Pass.workUnits st)"
  using assms
  by (auto simp: persisted_workUnits_def complete_def persist_def new_record_def Let_def)

text \<open>
  Claim C8, as amended. The work units persisted for a successful terminal pass are the
  number of file dependencies of the compilation plus 100 for every normal module outside
  \<^verbatim>\<open>node_modules\<close> whose path ends in \<^verbatim>\<open>.scss\<close>.
\<close>

theorem persisted_workUnits_value:
  assumes "persisted_workUnits (complete env cfg b stats) = Some n"
  shows "n = length (remdups (fileDependencies stats))
           + EXTRA_SCSS_WORK_UNITS
               * length (filter is_in_tree_stylesheet_module (modules stats))
         \<and> EXTRA_SCSS_WORK_UNITS = 100"
proof -
  from assms obtain st where
    st: "classify_modules (initial_pass b stats) (modules stats) = Inr st"
    and n: "n = Pass.workUnits st"
    unfolding persisted_workUnits_def complete_def persist_def new_record_def
    by (auto simp: Let_def split: if_splits option.splits sum.splits dest!: and_then_Inr)
  from classify_modules_workUnits [OF st] n show ?thesis
    by (simp add: initial_pass_def EXTRA_SCSS_WORK_UNITS_def)
qed

theorem persisted_workUnits_value_witness:
  "persisted_workUnits (complete ok_env test_config foo_bundle foo_pass_stats) = Some 103
   \<and> 103 = length (remdups (fileDependencies foo_pass_stats))
           + EXTRA_SCSS_WORK_UNITS
               * length (filter is_in_tree_stylesheet_module (modules foo_pass_stats))"
proof -
  have e: "persisted_workUnits (complete ok_env test_config foo_bundle foo_pass_stats) = Some 103"
    by (simp add: persisted_workUnits_def complete_def ok_env_def test_config_def
        foo_bundle_def foo_spec_def new_Bundle_def foo_pass_stats_def stats_of_def
        initial_pass_def persist_def new_record_def parseFilePath_def package_json_of_def
        Path_join_def Set_add_def endsWith_def EXTRA_SCSS_WORK_UNITS_def Let_def)
  show ?thesis
    using persisted_workUnits_value [OF e] e by simp
qed

text \<open>
  Claim C8 as stated counts every stylesheet module of the pass. A pass with three file
  dependencies whose only module is the stylesheet \<^verbatim>\<open>/repo/node_modules/pkg/a.scss\<close>
  persists 3 work units, not 103: the extra weight is added only on the branch for
  modules outside \<^verbatim>\<open>node_modules\<close>.
\<close>

theorem persisted_workUnits_counterexample:
  "persisted_workUnits (complete ok_env test_config foo_bundle dependency_stylesheet_stats) =
     Some 3
   \<and> length (remdups (fileDependencies dependency_stylesheet_stats))
       + EXTRA_SCSS_WORK_UNITS
           * length (filter is_stylesheet_module (modules dependency_stylesheet_stats)) = 103"
  by (simp add: persisted_workUnits_def complete_def ok_env_def test_config_def
      foo_bundle_def foo_spec_def new_Bundle_def dependency_stylesheet_stats_def stats_of_def
      initial_pass_def persist_def new_record_def parseFilePath_def package_json_of_def
      Path_join_def Set_add_def endsWith_def EXTRA_SCSS_WORK_UNITS_def Let_def)

subsection \<open>Persistence in the background\<close>

text \<open>
  Claim C9. What the event stream gets from the handler, the message or the error thrown,
  does not depend on what \<^verbatim>\<open>getHashes\<close> settles to or on whether \<^verbatim>\<open>bundle.cache.set\<close>
  throws: replacing both in the environment changes nothing. A rejected hash computation
  or a failed write only leaves the store without a new record.
\<close>

theorem persistence_is_fire_and_forget:
  "emitted (complete (env\<lparr>getHashes := g, cache_set := c\<rparr>) cfg b stats) =
   emitted (complete env cfg b stats)"
  by (auto simp: emitted_def complete_def Let_def split: sum.splits option.splits
      elim!: and_then.elims)

theorem persistence_is_fire_and_forget_witness:
  "emitted (complete failing_env test_config foo_bundle foo_pass_stats) =
     Inr (Some (CompilerSuccess ''foo'' 5))
   \<and> emitted (complete ok_env test_config foo_bundle foo_pass_stats) =
     Inr (Some (CompilerSuccess ''foo'' 5))"
proof -
  have f: "failing_env =
      ok_env\<lparr>getHashes := (\<lambda>fs. Inl (FsError ''EMFILE'')),
             cache_set := (\<lambda>r. Some (FsError ''EACCES''))\<rparr>"
    by (simp add: failing_env_def ok_env_def)
  have e: "emitted (complete ok_env test_config foo_bundle foo_pass_stats) =
      Inr (Some (CompilerSuccess ''foo'' 5))"
    by (simp add: emitted_def complete_def ok_env_def test_config_def
        foo_bundle_def foo_spec_def new_Bundle_def foo_pass_stats_def stats_of_def
        initial_pass_def persist_def new_record_def parseFilePath_def package_json_of_def
        Path_join_def Set_add_def endsWith_def EXTRA_SCSS_WORK_UNITS_def Let_def)
  show ?thesis
    using persistence_is_fire_and_forget
            [where env = ok_env and g = "\<lambda>fs. Inl (FsError ''EMFILE'')"
               and c = "\<lambda>r. Some (FsError ''EACCES'')" and cfg = test_config
               and b = foo_bundle and stats = foo_pass_stats]
          e
    by (simp only: f [symmetric] simp_thms)
qed

lemma failed_persistence_writes_nothing:
  "getHashes env = (\<lambda>fs. Inl e) \<or> cache_set env = (\<lambda>r. Some e) \<Longrightarrow>
   complete env cfg b stats = Inr c \<Longrightarrow> written c = None"
  by (auto simp: complete_def persist_def Let_def
      split: if_splits option.splits sum.splits dest!: and_then_Inr)

end
